theory Spec2Isabelle
  imports Complex_Main "HOL-Library.Sublist"
begin

section \<open>Python strings and slices\<close>

text \<open>
  A Python \<open>str\<close> is a sequence of Unicode code points, so it is modelled as the list of
  its code points; \<open>ord\<close> reads one of them as an integer. An ASCII literal of the source
  is written as an Isabelle string and embedded by \<open>lit\<close>.
\<close>

type_synonym codepoint = nat
type_synonym pystr = "codepoint list"

definition ord :: "codepoint \<Rightarrow> int" where
  "ord c = int c"

definition lit :: "string \<Rightarrow> pystr" where
  "lit s = map of_char s"

text \<open>
  The slice \<open>text[:n]\<close> for an integer \<open>n\<close>: a non-negative \<open>n\<close> keeps at most \<open>n\<close>
  leading elements, a negative \<open>n\<close> counts from the end and drops the last \<open>-n\<close> elements.
\<close>

definition slice_to :: "'a list \<Rightarrow> int \<Rightarrow> 'a list" where
  "slice_to xs n =
     (if 0 \<le> n then take (nat n) xs else take (nat (int (length xs) + n)) xs)"

section \<open>Text Encoder\<close>

text \<open>
  The six encoders of the three scripts share one body and differ in the constant that
  caps the character code. The body has two loops:
  \<^verbatim>\<open>
    char_indices = []
    for char in text[:max_length]:
        char_code = min(ord(char), CAP)
        char_indices.append(char_code)
    while len(char_indices) < max_length:
        char_indices.append(0)
    return char_indices
  \<close>
  \<open>encode_loop\<close> is the \<open>for\<close> loop over the sliced text, with the list built so far as
  its state; \<open>pad_loop\<close> is the \<open>while\<close> loop.
\<close>

fun encode_loop :: "int \<Rightarrow> pystr \<Rightarrow> int list \<Rightarrow> int list" where
  "encode_loop cap [] char_indices = char_indices"
| "encode_loop cap (char # rest) char_indices =
     encode_loop cap rest (char_indices @ [min (ord char) cap])"

function pad_loop :: "int \<Rightarrow> int list \<Rightarrow> int list" where
  "pad_loop max_length char_indices =
     (if int (length char_indices) < max_length
      then pad_loop max_length (char_indices @ [0])
      else char_indices)"
  by pat_completeness auto
termination
  by (relation "measure (\<lambda>(max_length, char_indices). nat (max_length - int (length char_indices)))")
     auto

declare pad_loop.simps [simp del]

text \<open>The shared body, with the cap as a parameter (the spec's \<open>encode\<close>).\<close>

definition encode :: "pystr \<Rightarrow> int \<Rightarrow> int \<Rightarrow> int list" where
  "encode text max_length max_code =
     pad_loop max_length (encode_loop max_code (slice_to text max_length) [])"

text \<open>\<open>create_model.py\<close>: the full variant, cap 29999.\<close>

definition preprocess_text :: "pystr \<Rightarrow> int \<Rightarrow> int list" where
  "preprocess_text text max_length =
     pad_loop max_length (encode_loop 29999 (slice_to text max_length) [])"

definition preprocess_contact_name :: "pystr \<Rightarrow> int \<Rightarrow> int list" where
  "preprocess_contact_name name max_length =
     pad_loop max_length (encode_loop 29999 (slice_to name max_length) [])"

text \<open>\<open>create_small_model.py\<close>: the small variant, cap 255.\<close>

definition preprocess_text_simple :: "pystr \<Rightarrow> int \<Rightarrow> int list" where
  "preprocess_text_simple text max_length =
     pad_loop max_length (encode_loop 255 (slice_to text max_length) [])"

definition preprocess_contact_name_simple :: "pystr \<Rightarrow> int \<Rightarrow> int list" where
  "preprocess_contact_name_simple name max_length =
     pad_loop max_length (encode_loop 255 (slice_to name max_length) [])"

text \<open>\<open>create_tiny_model.py\<close>: the tiny variant, cap 127.\<close>

definition preprocess_text_tiny :: "pystr \<Rightarrow> int \<Rightarrow> int list" where
  "preprocess_text_tiny text max_length =
     pad_loop max_length (encode_loop 127 (slice_to text max_length) [])"

definition preprocess_contact_name_tiny :: "pystr \<Rightarrow> int \<Rightarrow> int list" where
  "preprocess_contact_name_tiny name max_length =
     pad_loop max_length (encode_loop 127 (slice_to name max_length) [])"

section \<open>Example Generator\<close>

text \<open>
  An example is the pair (input text, label). The generators draw from numpy's global
  random state; here the random source is explicit: an infinite tape of raw draws, read
  from the front. \<open>np.random.choice(xs)\<close> returns the element of \<open>xs\<close> at a random index
  below \<open>len(xs)\<close>, and \<open>np.random.randint(low, high)\<close> an integer of \<open>[low, high)\<close>; each
  consumes one draw. Every sequence of outcomes is the outcome of some tape. (numpy
  raises on an empty pool and on \<open>high \<le> low\<close>; the source calls both on literals only.)
\<close>

type_synonym example = "pystr \<times> pystr"
type_synonym rng = "nat \<Rightarrow> nat"

definition rng_next :: "rng \<Rightarrow> rng" where
  "rng_next g = (\<lambda>i. g (Suc i))"

definition random_choice :: "'a list \<Rightarrow> rng \<Rightarrow> 'a \<times> rng" where
  "random_choice xs g = (xs ! (g 0 mod length xs), rng_next g)"

definition random_randint :: "int \<Rightarrow> int \<Rightarrow> rng \<Rightarrow> int \<times> rng" where
  "random_randint low high g = (low + int (g 0 mod nat (high - low)), rng_next g)"

text \<open>
  The f-string conversions of an integer: \<open>{n}\<close> prints it in decimal, \<open>{n:02d}\<close> pads
  the decimal form with zeros on the left to width 2.
\<close>

function decimal :: "nat \<Rightarrow> pystr" where
  "decimal n = (if n < 10 then [48 + n] else decimal (n div 10) @ [48 + n mod 10])"
  by pat_completeness auto
termination
  by (relation "measure (\<lambda>n. n)") auto

declare decimal.simps [simp del]

definition format_d :: "int \<Rightarrow> pystr" where
  "format_d n = (if n < 0 then lit ''-'' @ decimal (nat (- n)) else decimal (nat n))"

definition format_02d :: "int \<Rightarrow> pystr" where
  "format_02d n = (let s = format_d n in replicate (2 - length s) 48 @ s)"

text \<open>
  \<open>for i in range(count): ...; training_examples.append((text, full_name))\<close>, with the
  loop body as a parameter: the body reads the random source and returns the example to
  append and the rest of the source.
\<close>

fun generate_loop ::
  "(rng \<Rightarrow> example \<times> rng) \<Rightarrow> nat \<Rightarrow> rng \<Rightarrow> example list \<Rightarrow> example list" where
  "generate_loop body 0 g training_examples = training_examples"
| "generate_loop body (Suc count) g training_examples =
     (let (ex, g') = body g in generate_loop body count g' (training_examples @ [ex]))"

text \<open>
  The examples the loop appends, in order: the body's example at the current random
  source, then the examples of the remaining rounds at the rest of the source. This is
  the list the claims call the synthetic examples.
\<close>

fun synthetic_examples :: "(rng \<Rightarrow> example \<times> rng) \<Rightarrow> nat \<Rightarrow> rng \<Rightarrow> example list" where
  "synthetic_examples body 0 g = []"
| "synthetic_examples body (Suc count) g =
     (let (ex, g') = body g in ex # synthetic_examples body count g')"

subsection \<open>\<open>create_model.py\<close>: \<open>generate_training_data\<close>\<close>

definition training_examples_full :: "example list" where
  "training_examples_full = map (\<lambda>(text, name). (lit text, lit name))
     [(''John Smith\<newline>Online\<newline>Last seen today at 2:30 PM'', ''John Smith''),
      (''Maria Garcia\<newline>Typing...\<newline>Last seen yesterday'', ''Maria Garcia''),
      (''Dr. Johnson\<newline>Online\<newline>Last seen 5 minutes ago'', ''Dr. Johnson''),
      (''Sarah Wilson\<newline>Last seen today at 10:15 AM'', ''Sarah Wilson''),
      (''Mike Chen\<newline>Online\<newline>Last seen 1 hour ago'', ''Mike Chen''),
      (''Anna Rodriguez\<newline>Last seen yesterday at 8:45 PM'', ''Anna Rodriguez''),
      (''Prof. Brown\<newline>Online\<newline>Last seen 30 minutes ago'', ''Prof. Brown''),
      (''Lisa Johnson\<newline>Typing...\<newline>Last seen today'', ''Lisa Johnson''),
      (''David Kim\<newline>Last seen 2 hours ago'', ''David Kim''),
      (''Emma Davis\<newline>Online\<newline>Last seen 15 minutes ago'', ''Emma Davis'')]"

definition names_full :: "pystr list" where
  "names_full = map lit [''Alex'', ''Chris'', ''Taylor'', ''Jordan'', ''Casey'',
     ''Morgan'', ''Riley'', ''Avery'', ''Quinn'', ''Blake'']"

definition surnames_full :: "pystr list" where
  "surnames_full = map lit [''Anderson'', ''Taylor'', ''Thomas'', ''Jackson'', ''White'',
     ''Harris'', ''Martin'', ''Thompson'', ''Garcia'', ''Martinez'']"

definition status_options :: "pystr list" where
  "status_options = map lit [''Online'', ''Last seen today'', ''Last seen yesterday'',
     ''Typing...'']"

definition synthetic_example_full :: "rng \<Rightarrow> example \<times> rng" where
  "synthetic_example_full g0 =
     (let (first_name, g1) = random_choice names_full g0;
          (last_name, g2) = random_choice surnames_full g1;
          full_name = first_name @ lit '' '' @ last_name;
          (status, g3) = random_choice status_options g2;
          (hour, g4) = random_randint 1 12 g3;
          (minute, g5) = random_randint 10 60 g4;
          text = full_name @ lit ''\<newline>'' @ status @ lit ''\<newline>Last seen today at ''
                   @ format_d hour @ lit '':'' @ format_02d minute @ lit '' PM''
      in ((text, full_name), g5))"

definition generate_training_data :: "rng \<Rightarrow> example list" where
  "generate_training_data g = generate_loop synthetic_example_full 50 g training_examples_full"

subsection \<open>\<open>create_small_model.py\<close>: \<open>generate_simple_training_data\<close>\<close>

definition training_examples_small :: "example list" where
  "training_examples_small = map (\<lambda>(text, name). (lit text, lit name))
     [(''John Smith\<newline>Online\<newline>Last seen today'', ''John Smith''),
      (''Maria Garcia\<newline>Typing...\<newline>Last seen yesterday'', ''Maria Garcia''),
      (''Dr. Johnson\<newline>Online\<newline>Last seen 5 minutes ago'', ''Dr. Johnson''),
      (''Sarah Wilson\<newline>Last seen today'', ''Sarah Wilson''),
      (''Mike Chen\<newline>Online\<newline>Last seen 1 hour ago'', ''Mike Chen''),
      (''Anna Rodriguez\<newline>Last seen yesterday'', ''Anna Rodriguez''),
      (''Prof. Brown\<newline>Online\<newline>Last seen 30 minutes ago'', ''Prof. Brown''),
      (''Lisa Johnson\<newline>Typing...\<newline>Last seen today'', ''Lisa Johnson''),
      (''David Kim\<newline>Last seen 2 hours ago'', ''David Kim''),
      (''Emma Davis\<newline>Online\<newline>Last seen 15 minutes ago'', ''Emma Davis'')]"

definition names_small :: "pystr list" where
  "names_small = map lit [''Alex'', ''Chris'', ''Taylor'', ''Jordan'', ''Casey'',
     ''Morgan'', ''Riley'', ''Avery'', ''Quinn'', ''Blake'']"

definition surnames_small :: "pystr list" where
  "surnames_small = map lit [''Anderson'', ''Taylor'', ''Thomas'', ''Jackson'', ''White'',
     ''Harris'', ''Martin'', ''Thompson'', ''Garcia'', ''Martinez'']"

definition synthetic_example_small :: "rng \<Rightarrow> example \<times> rng" where
  "synthetic_example_small g0 =
     (let (first_name, g1) = random_choice names_small g0;
          (last_name, g2) = random_choice surnames_small g1;
          full_name = first_name @ lit '' '' @ last_name;
          (status, g3) = random_choice status_options g2;
          text = full_name @ lit ''\<newline>'' @ status @ lit ''\<newline>Last seen today''
      in ((text, full_name), g3))"

definition generate_simple_training_data :: "rng \<Rightarrow> example list" where
  "generate_simple_training_data g =
     generate_loop synthetic_example_small 20 g training_examples_small"

subsection \<open>\<open>create_tiny_model.py\<close>: \<open>generate_tiny_training_data\<close>\<close>

definition training_examples_tiny :: "example list" where
  "training_examples_tiny = map (\<lambda>(text, name). (lit text, lit name))
     [(''John Smith\<newline>Online'', ''John Smith''),
      (''Maria Garcia\<newline>Typing'', ''Maria Garcia''),
      (''Dr. Johnson\<newline>Online'', ''Dr. Johnson''),
      (''Sarah Wilson\<newline>Last seen'', ''Sarah Wilson''),
      (''Mike Chen\<newline>Online'', ''Mike Chen'')]"

definition names_tiny :: "pystr list" where
  "names_tiny = map lit [''Alex'', ''Chris'', ''Taylor'', ''Jordan'', ''Casey'']"

definition surnames_tiny :: "pystr list" where
  "surnames_tiny = map lit [''Anderson'', ''Taylor'', ''Thomas'', ''Jackson'', ''White'']"

definition synthetic_example_tiny :: "rng \<Rightarrow> example \<times> rng" where
  "synthetic_example_tiny g0 =
     (let (first_name, g1) = random_choice names_tiny g0;
          (last_name, g2) = random_choice surnames_tiny g1;
          full_name = first_name @ lit '' '' @ last_name;
          text = full_name @ lit ''\<newline>Online''
      in ((text, full_name), g2))"

definition generate_tiny_training_data :: "rng \<Rightarrow> example list" where
  "generate_tiny_training_data g =
     generate_loop synthetic_example_tiny 10 g training_examples_tiny"

section \<open>Dataset Builder\<close>

text \<open>
  \<open>np.array(rows, dtype=np.float32)\<close> of a list of lists of numbers: the empty list gives
  an array of shape \<open>(0,)\<close>, rows of one common length \<open>n\<close> give shape \<open>(len(rows), n)\<close>, and
  rows of different lengths raise \<open>ValueError\<close>. The elements are kept as integers: every
  code the encoders emit is below \<open>2^24\<close> and so is represented exactly in \<open>float32\<close>.
\<close>

datatype py_error = ValueError

datatype ndarray = NDArray (shape: "nat list") (rows: "int list list")

definition np_array :: "int list list \<Rightarrow> py_error + ndarray" where
  "np_array xss =
     (case xss of
        [] \<Rightarrow> Inr (NDArray [0] [])
      | xs # _ \<Rightarrow>
          if list_all (\<lambda>ys. length ys = length xs) xss
          then Inr (NDArray [length xss, length xs] xss)
          else Inl ValueError)"

text \<open>
  The loop of \<open>create_training_data\<close>, the same in the three scripts but for the two
  encoders it calls (with their default \<open>max_length\<close>, 200 and 50):
  \<^verbatim>\<open>
    for text, contact_name in training_examples:
        X.append(preprocess_text(text))
        y.append(preprocess_contact_name(contact_name))
  \<close>
\<close>

fun dataset_loop ::
  "(pystr \<Rightarrow> int list) \<Rightarrow> (pystr \<Rightarrow> int list) \<Rightarrow> example list \<Rightarrow>
     int list list \<Rightarrow> int list list \<Rightarrow> int list list \<times> int list list" where
  "dataset_loop enc_text enc_name [] X y = (X, y)"
| "dataset_loop enc_text enc_name ((text, contact_name) # rest) X y =
     dataset_loop enc_text enc_name rest (X @ [enc_text text]) (y @ [enc_name contact_name])"

definition to_arrays ::
  "int list list \<times> int list list \<Rightarrow> py_error + (ndarray \<times> ndarray)" where
  "to_arrays Xy =
     (case np_array (fst Xy) of
        Inl e \<Rightarrow> Inl e
      | Inr X \<Rightarrow> (case np_array (snd Xy) of Inl e \<Rightarrow> Inl e | Inr y \<Rightarrow> Inr (X, y)))"

definition create_training_data_full :: "rng \<Rightarrow> py_error + (ndarray \<times> ndarray)" where
  "create_training_data_full g =
     (let training_examples = generate_training_data g
      in to_arrays (dataset_loop (\<lambda>text. preprocess_text text 200)
           (\<lambda>name. preprocess_contact_name name 50) training_examples [] []))"

definition create_training_data_small :: "rng \<Rightarrow> py_error + (ndarray \<times> ndarray)" where
  "create_training_data_small g =
     (let training_examples = generate_simple_training_data g
      in to_arrays (dataset_loop (\<lambda>text. preprocess_text_simple text 200)
           (\<lambda>name. preprocess_contact_name_simple name 50) training_examples [] []))"

definition create_training_data_tiny :: "rng \<Rightarrow> py_error + (ndarray \<times> ndarray)" where
  "create_training_data_tiny g =
     (let training_examples = generate_tiny_training_data g
      in to_arrays (dataset_loop (\<lambda>text. preprocess_text_tiny text 200)
           (\<lambda>name. preprocess_contact_name_tiny name 50) training_examples [] []))"

section \<open>Model Definition\<close>

text \<open>
  The forward pass of the three Keras models, over the reals. A \<open>Dense\<close> layer with
  \<open>units\<close> outputs computes \<open>activation(dot(input, kernel) + bias)\<close>; its weights are
  parameters of the model. The \<open>softmax\<close> activation normalises the exponentials over the
  last axis of the layer's output, which for the output layer is the whole vector of
  \<open>MAX_OUTPUT_LENGTH * VOCAB_SIZE\<close> units. \<open>Reshape((rows, cols))\<close> cuts that vector into
  \<open>rows\<close> consecutive rows of \<open>cols\<close> elements. A \<open>Dropout\<close> layer is the identity at
  inference and a random rescaled mask in training; it is a parameter of the model.
\<close>

type_synonym vec = "real list"

record dense_params =
  kernel :: "nat \<Rightarrow> nat \<Rightarrow> real"
  bias :: "nat \<Rightarrow> real"

definition MAX_INPUT_LENGTH :: nat where "MAX_INPUT_LENGTH = 200"
definition MAX_OUTPUT_LENGTH :: nat where "MAX_OUTPUT_LENGTH = 50"
definition VOCAB_SIZE_full :: nat where "VOCAB_SIZE_full = 30000"
definition VOCAB_SIZE_small :: nat where "VOCAB_SIZE_small = 256"
definition VOCAB_SIZE_tiny :: nat where "VOCAB_SIZE_tiny = 128"

definition relu :: "vec \<Rightarrow> vec" where
  "relu z = map (\<lambda>x. max 0 x) z"

definition softmax :: "vec \<Rightarrow> vec" where
  "softmax z = map (\<lambda>x. exp x / sum_list (map exp z)) z"

definition dense :: "nat \<Rightarrow> (vec \<Rightarrow> vec) \<Rightarrow> dense_params \<Rightarrow> vec \<Rightarrow> vec" where
  "dense units activation p x =
     activation (map (\<lambda>j. sum_list (map (\<lambda>i. x ! i * kernel p i j) [0..<length x]) + bias p j)
       [0..<units])"

definition reshape :: "nat \<Rightarrow> nat \<Rightarrow> vec \<Rightarrow> vec list" where
  "reshape nrows ncols v = map (\<lambda>r. take ncols (drop (r * ncols) v)) [0..<nrows]"

record weights_full =
  full_dense1 :: dense_params
  full_dense2 :: dense_params
  full_dense3 :: dense_params
  full_output :: dense_params

definition create_contact_detection_model ::
  "(real \<Rightarrow> vec \<Rightarrow> vec) \<Rightarrow> weights_full \<Rightarrow> vec \<Rightarrow> vec list" where
  "create_contact_detection_model dropout w input_text =
     (let dense1 = dense 256 relu (full_dense1 w) input_text;
          dropout1 = dropout 0.2 dense1;
          dense2 = dense 128 relu (full_dense2 w) dropout1;
          dropout2 = dropout 0.2 dense2;
          dense3 = dense 64 relu (full_dense3 w) dropout2;
          dropout3 = dropout 0.1 dense3;
          output = dense (MAX_OUTPUT_LENGTH * VOCAB_SIZE_full) softmax (full_output w) dropout3
      in reshape MAX_OUTPUT_LENGTH VOCAB_SIZE_full output)"

record weights_small =
  small_dense1 :: dense_params
  small_dense2 :: dense_params
  small_output :: dense_params

definition create_small_contact_detection_model ::
  "(real \<Rightarrow> vec \<Rightarrow> vec) \<Rightarrow> weights_small \<Rightarrow> vec \<Rightarrow> vec list" where
  "create_small_contact_detection_model dropout w input_text =
     (let dense1 = dense 64 relu (small_dense1 w) input_text;
          dropout1 = dropout 0.1 dense1;
          dense2 = dense 32 relu (small_dense2 w) dropout1;
          dropout2 = dropout 0.1 dense2;
          output = dense (MAX_OUTPUT_LENGTH * VOCAB_SIZE_small) softmax (small_output w) dropout2
      in reshape MAX_OUTPUT_LENGTH VOCAB_SIZE_small output)"

record weights_tiny =
  tiny_dense1 :: dense_params
  tiny_dense2 :: dense_params
  tiny_output :: dense_params

definition create_tiny_contact_detection_model :: "weights_tiny \<Rightarrow> vec \<Rightarrow> vec list" where
  "create_tiny_contact_detection_model w input_text =
     (let dense1 = dense 32 relu (tiny_dense1 w) input_text;
          dense2 = dense 16 relu (tiny_dense2 w) dense1;
          output = dense (MAX_OUTPUT_LENGTH * VOCAB_SIZE_tiny) softmax (tiny_output w) dense2
      in reshape MAX_OUTPUT_LENGTH VOCAB_SIZE_tiny output)"

text \<open>
  A freshly built tiny model: Keras initialises the bias of a \<open>Dense\<close> layer with zeros and
  its kernel with random values, here the parameters \<open>k1\<close>, \<open>k2\<close> and \<open>k3\<close>.
\<close>

definition initial_weights_tiny ::
  "(nat \<Rightarrow> nat \<Rightarrow> real) \<Rightarrow> (nat \<Rightarrow> nat \<Rightarrow> real) \<Rightarrow> (nat \<Rightarrow> nat \<Rightarrow> real) \<Rightarrow> weights_tiny" where
  "initial_weights_tiny k1 k2 k3 =
     \<lparr>tiny_dense1 = \<lparr>kernel = k1, bias = \<lambda>j. 0\<rparr>,
      tiny_dense2 = \<lparr>kernel = k2, bias = \<lambda>j. 0\<rparr>,
      tiny_output = \<lparr>kernel = k3, bias = \<lambda>j. 0\<rparr>\<rparr>"

section \<open>Text Encoder: the two loops in closed form\<close>

lemma encode_loop_eq:
  "encode_loop cap cs acc = acc @ map (\<lambda>c. min (ord c) cap) cs"
  by (induction cs arbitrary: acc) simp_all

lemma pad_loop_eq:
  "pad_loop n acc = acc @ replicate (nat (n - int (length acc))) 0"
proof (induction n acc rule: pad_loop.induct)
  case (1 n acc)
  show ?case
  proof (cases "int (length acc) < n")
    case True
    define k where "k = nat (n - int (length acc) - 1)"
    have k1: "nat (n - int (length acc)) = Suc k"
      using True by (simp add: k_def)
    have k2: "nat (n - int (length (acc @ [0::int]))) = k"
      by (simp add: k_def algebra_simps)
    have "pad_loop n acc = pad_loop n (acc @ [0])"
      using True by (subst pad_loop.simps) (simp only: if_True)
    also have "\<dots> = (acc @ [0]) @ replicate k 0"
      using "1.IH" [OF True] by (simp only: k2)
    also have "\<dots> = acc @ replicate (Suc k) 0"
      by simp
    finally show ?thesis
      by (simp only: k1)
  next
    case False
    have "pad_loop n acc = acc"
      using False by (subst pad_loop.simps) (simp only: if_False)
    moreover have "nat (n - int (length acc)) = 0"
      using False by simp
    ultimately show ?thesis
      by simp
  qed
qed

lemma encode_eq:
  "encode text n m =
     map (\<lambda>c. min (ord c) m) (slice_to text n)
       @ replicate (nat (n - int (length (slice_to text n)))) 0"
  by (simp add: encode_def encode_loop_eq pad_loop_eq)

lemma encoders_are_encode:
  "preprocess_text text n = encode text n 29999"
  "preprocess_contact_name text n = encode text n 29999"
  "preprocess_text_simple text n = encode text n 255"
  "preprocess_contact_name_simple text n = encode text n 255"
  "preprocess_text_tiny text n = encode text n 127"
  "preprocess_contact_name_tiny text n = encode text n 127"
  by (simp_all add: encode_def preprocess_text_def preprocess_contact_name_def
      preprocess_text_simple_def preprocess_contact_name_simple_def
      preprocess_text_tiny_def preprocess_contact_name_tiny_def)

lemma slice_to_nonneg: "0 \<le> n \<Longrightarrow> slice_to xs n = take (nat n) xs"
  by (simp add: slice_to_def)

lemma length_encode: "0 \<le> n \<Longrightarrow> length (encode text n m) = nat n"
  by (simp add: encode_eq slice_to_nonneg)

lemma int_length_encode: "0 \<le> n \<Longrightarrow> int (length (encode text n m)) = n"
  by (simp add: length_encode)

lemma encode_nth_char:
  assumes "i < length text" and "int i < n"
  shows "encode text n m ! i = min (ord (text ! i)) m"
proof -
  from assms have n: "0 \<le> n" and i: "i < nat n"
    by simp_all
  from assms i have "i < length (take (nat n) text)"
    by simp
  then show ?thesis
    using n by (simp add: encode_eq slice_to_nonneg nth_append)
qed

lemma encode_nth_pad:
  assumes "length text \<le> i" and "int i < n"
  shows "encode text n m ! i = 0"
proof -
  from assms have n: "0 \<le> n" and i: "i < nat n"
    by simp_all
  from assms have short: "length (take (nat n) text) = length text"
    by simp
  have "i - length text < nat (n - int (length text))"
    using assms by linarith
  then show ?thesis
    using n assms short by (simp add: encode_eq slice_to_nonneg nth_append)
qed

lemma encode_empty: "encode [] n m = replicate (nat n) 0"
  by (simp add: encode_eq slice_to_def)

lemma encode_prefix:
  "0 \<le> n \<Longrightarrow> encode (take (nat n) text) n m = encode text n m"
  by (simp add: encode_eq slice_to_nonneg)

lemma encode_range:
  assumes "0 \<le> m" and "v \<in> set (encode text n m)"
  shows "0 \<le> v \<and> v \<le> m"
  using assms by (auto simp: encode_eq ord_def)

lemma pad_loop_terminates: "pad_loop_dom (n, acc)"
proof -
  have "All pad_loop_dom"
    by (relation "measure (\<lambda>(n, acc). nat (n - int (length acc)))") auto
  then show ?thesis
    by simp
qed

lemma replicate_numeral_Cons: "replicate (numeral k) x = x # replicate (pred_numeral k) x"
  by (simp add: numeral_eq_Suc)

lemma lit_AB: "lit ''AB'' = [65, 66]"
  by (simp add: lit_def)

lemma encode_AB_example: "preprocess_text_tiny (lit ''AB'') 5 = [65, 66, 0, 0, 0]"
  by (simp add: encoders_are_encode encode_eq slice_to_def lit_def ord_def
      replicate_numeral_Cons)

lemma encode_euro_example: "preprocess_text_tiny [8364] 1 = [127]"
  by (simp add: encoders_are_encode encode_eq slice_to_def ord_def)

text \<open>
  A negative \<open>max_length\<close> is not a length: the slice then drops characters from the end
  and the \<open>while\<close> loop pads nothing.
\<close>

lemma negative_max_length_example: "preprocess_text (lit ''abc'') (- 1) = [97, 98]"
  by (simp add: encoders_are_encode encode_eq slice_to_def lit_def ord_def)

lemma encode_elem_range:
  "0 \<le> m \<Longrightarrow> \<forall>v \<in> set (encode text n m). 0 \<le> v \<and> v \<le> m"
  using encode_range by blast

section \<open>Text Encoder: claims C1 to C5\<close>

text \<open>
  C1. For every input string \<open>s\<close>, every maximum length \<open>L\<close> and every cap \<open>max_code\<close>, the
  encoder returns a sequence of length exactly \<open>L\<close>, whether \<open>s\<close> is empty, shorter than \<open>L\<close>
  or longer than \<open>L\<close>. This holds for the shared body and for each of the six encoders of
  the three scripts. A length is a natural number, so \<open>L\<close> is taken non-negative, as the
  configured 200 and 50 are.
\<close>

theorem encoder_length_exact:
  "0 \<le> L \<Longrightarrow>
    int (length (encode s L max_code)) = L \<and>
    int (length (preprocess_text s L)) = L \<and>
    int (length (preprocess_contact_name s L)) = L \<and>
    int (length (preprocess_text_simple s L)) = L \<and>
    int (length (preprocess_contact_name_simple s L)) = L \<and>
    int (length (preprocess_text_tiny s L)) = L \<and>
    int (length (preprocess_contact_name_tiny s L)) = L"
  by (simp add: encoders_are_encode int_length_encode)

theorem encoder_length_exact_witness:
  "int (length (preprocess_text (lit ''John Smith'') 200)) = 200 \<and>
   int (length (preprocess_contact_name (lit ''John Smith'') 4)) = 4 \<and>
   int (length (preprocess_text_tiny [] 0)) = 0"
  using encoder_length_exact [of 200 "lit ''John Smith''" 0]
    encoder_length_exact [of 4 "lit ''John Smith''" 0]
    encoder_length_exact [of 0 "[]" 0]
  by simp

text \<open>
  C2. For every character among the first \<open>L\<close> characters of \<open>s\<close> (position \<open>i\<close> with
  \<open>i < len(s)\<close> and \<open>i < L\<close>), the encoded value at its position is \<open>min(ord(c), max_code)\<close>:
  it lies in \<open>[0, max_code]\<close> and is exactly \<open>max_code\<close> when the character's code exceeds
  \<open>max_code\<close>. The cap is 29999, 255 and 127 for the full, small and tiny variant, which
  is the variant's vocabulary size minus one.
\<close>

theorem encoder_clamps_codes:
  "i < length s \<Longrightarrow> int i < L \<Longrightarrow>
    (let v = preprocess_text s L ! i
     in v = min (ord (s ! i)) 29999 \<and> 0 \<le> v \<and> v \<le> 29999 \<and>
        (29999 < ord (s ! i) \<longrightarrow> v = 29999)) \<and>
    (let v = preprocess_contact_name s L ! i
     in v = min (ord (s ! i)) 29999 \<and> 0 \<le> v \<and> v \<le> 29999 \<and>
        (29999 < ord (s ! i) \<longrightarrow> v = 29999)) \<and>
    (let v = preprocess_text_simple s L ! i
     in v = min (ord (s ! i)) 255 \<and> 0 \<le> v \<and> v \<le> 255 \<and>
        (255 < ord (s ! i) \<longrightarrow> v = 255)) \<and>
    (let v = preprocess_contact_name_simple s L ! i
     in v = min (ord (s ! i)) 255 \<and> 0 \<le> v \<and> v \<le> 255 \<and>
        (255 < ord (s ! i) \<longrightarrow> v = 255)) \<and>
    (let v = preprocess_text_tiny s L ! i
     in v = min (ord (s ! i)) 127 \<and> 0 \<le> v \<and> v \<le> 127 \<and>
        (127 < ord (s ! i) \<longrightarrow> v = 127)) \<and>
    (let v = preprocess_contact_name_tiny s L ! i
     in v = min (ord (s ! i)) 127 \<and> 0 \<le> v \<and> v \<le> 127 \<and>
        (127 < ord (s ! i) \<longrightarrow> v = 127)) \<and>
    int VOCAB_SIZE_full - 1 = 29999 \<and>
    int VOCAB_SIZE_small - 1 = 255 \<and>
    int VOCAB_SIZE_tiny - 1 = 127"
  by (simp add: encoders_are_encode encode_nth_char Let_def ord_def
      VOCAB_SIZE_full_def VOCAB_SIZE_small_def VOCAB_SIZE_tiny_def)

theorem encoder_clamps_codes_witness:
  "preprocess_text_tiny [8364] 1 ! 0 = 127 \<and> preprocess_text_simple [8364] 1 ! 0 = 255 \<and>
   preprocess_text [8364, 30000] 200 ! 0 = 8364 \<and> preprocess_text [8364, 30000] 200 ! 1 = 29999"
  using encoder_clamps_codes [of 0 "[8364]" 1] encoder_clamps_codes [of 0 "[8364, 30000]" 200]
    encoder_clamps_codes [of 1 "[8364, 30000]" 200]
  by (simp add: Let_def ord_def VOCAB_SIZE_full_def VOCAB_SIZE_small_def VOCAB_SIZE_tiny_def)

text \<open>
  C3. For a string \<open>s\<close> shorter than \<open>L\<close>, the output is 0 at every position of
  \<open>[len(s), L)\<close>; the empty string encodes to the all-zero sequence of length \<open>L\<close>.
\<close>

theorem encoder_pads_with_zeros:
  "int (length s) < L \<Longrightarrow> length s \<le> i \<Longrightarrow> int i < L \<Longrightarrow>
    preprocess_text s L ! i = 0 \<and>
    preprocess_contact_name s L ! i = 0 \<and>
    preprocess_text_simple s L ! i = 0 \<and>
    preprocess_contact_name_simple s L ! i = 0 \<and>
    preprocess_text_tiny s L ! i = 0 \<and>
    preprocess_contact_name_tiny s L ! i = 0 \<and>
    preprocess_text [] L = replicate (nat L) 0 \<and>
    preprocess_contact_name [] L = replicate (nat L) 0 \<and>
    preprocess_text_simple [] L = replicate (nat L) 0 \<and>
    preprocess_contact_name_simple [] L = replicate (nat L) 0 \<and>
    preprocess_text_tiny [] L = replicate (nat L) 0 \<and>
    preprocess_contact_name_tiny [] L = replicate (nat L) 0"
  by (simp add: encoders_are_encode encode_nth_pad encode_empty)

theorem encoder_pads_with_zeros_witness:
  "preprocess_text_tiny (lit ''AB'') 5 ! 2 = 0 \<and> preprocess_text_tiny (lit ''AB'') 5 ! 4 = 0 \<and>
   preprocess_contact_name [] 3 = [0, 0, 0]"
  using encoder_pads_with_zeros [of "lit ''AB''" 5 2] encoder_pads_with_zeros [of "lit ''AB''" 5 4]
    encoder_pads_with_zeros [of "[]" 3 0]
  by (simp add: lit_AB replicate_numeral_Cons)

text \<open>
  C4. For a string \<open>s\<close> at least \<open>L\<close> characters long, the encoding depends only on the first
  \<open>L\<close> characters: encoding \<open>s\<close> and encoding its prefix of length \<open>L\<close> give the same sequence.
\<close>

theorem encoder_truncates:
  "0 \<le> L \<Longrightarrow> L \<le> int (length s) \<Longrightarrow>
    encode s L max_code = encode (take (nat L) s) L max_code \<and>
    preprocess_text s L = preprocess_text (take (nat L) s) L \<and>
    preprocess_contact_name s L = preprocess_contact_name (take (nat L) s) L \<and>
    preprocess_text_simple s L = preprocess_text_simple (take (nat L) s) L \<and>
    preprocess_contact_name_simple s L = preprocess_contact_name_simple (take (nat L) s) L \<and>
    preprocess_text_tiny s L = preprocess_text_tiny (take (nat L) s) L \<and>
    preprocess_contact_name_tiny s L = preprocess_contact_name_tiny (take (nat L) s) L"
  by (simp add: encoders_are_encode encode_prefix)

theorem encoder_truncates_witness:
  "preprocess_text_tiny (lit ''ABCD'') 2 = preprocess_text_tiny (lit ''AB'') 2"
  using encoder_truncates [of 2 "lit ''ABCD''" 0]
  by (simp add: lit_def)

text \<open>
  C5. The encoder is total and never raises. Its body has no raising operation on a
  string and an integer: the slice and \<open>ord\<close> of a character of a string are always
  defined, the \<open>for\<close> loop runs over a finite string, and the \<open>while\<close> loop terminates from
  every state (its domain predicate holds everywhere). For any input string the result is
  well formed: every element lies in \<open>[0, max_code]\<close> and, for a non-negative \<open>L\<close>, the
  length is \<open>L\<close>.
\<close>

theorem encoder_total_well_formed:
  "pad_loop_dom (L, acc) \<and>
   (\<forall>v \<in> set (preprocess_text s L). 0 \<le> v \<and> v \<le> 29999) \<and>
   (\<forall>v \<in> set (preprocess_contact_name s L). 0 \<le> v \<and> v \<le> 29999) \<and>
   (\<forall>v \<in> set (preprocess_text_simple s L). 0 \<le> v \<and> v \<le> 255) \<and>
   (\<forall>v \<in> set (preprocess_contact_name_simple s L). 0 \<le> v \<and> v \<le> 255) \<and>
   (\<forall>v \<in> set (preprocess_text_tiny s L). 0 \<le> v \<and> v \<le> 127) \<and>
   (\<forall>v \<in> set (preprocess_contact_name_tiny s L). 0 \<le> v \<and> v \<le> 127) \<and>
   (0 \<le> L \<longrightarrow> int (length (preprocess_text s L)) = L) \<and>
   (0 \<le> L \<longrightarrow> int (length (preprocess_contact_name s L)) = L) \<and>
   (0 \<le> L \<longrightarrow> int (length (preprocess_text_simple s L)) = L) \<and>
   (0 \<le> L \<longrightarrow> int (length (preprocess_contact_name_simple s L)) = L) \<and>
   (0 \<le> L \<longrightarrow> int (length (preprocess_text_tiny s L)) = L) \<and>
   (0 \<le> L \<longrightarrow> int (length (preprocess_contact_name_tiny s L)) = L)"
proof -
  have full: "\<forall>v \<in> set (encode s L 29999). 0 \<le> v \<and> v \<le> 29999"
    by (rule encode_elem_range) simp
  have small: "\<forall>v \<in> set (encode s L 255). 0 \<le> v \<and> v \<le> 255"
    by (rule encode_elem_range) simp
  have tiny: "\<forall>v \<in> set (encode s L 127). 0 \<le> v \<and> v \<le> 127"
    by (rule encode_elem_range) simp
  have len: "0 \<le> L \<longrightarrow> int (length (encode s L m)) = L" for m
    by (simp add: int_length_encode)
  show ?thesis
    unfolding encoders_are_encode
    by (intro conjI pad_loop_terminates full small tiny len)
qed

theorem encoder_total_well_formed_witness:
  "0 \<le> preprocess_text [8364, 30000] 3 ! 1 \<and> preprocess_text [8364, 30000] 3 ! 1 \<le> 29999 \<and>
   int (length (preprocess_text [8364, 30000] 3)) = 3 \<and>
   int (length (preprocess_contact_name_simple [] 50)) = 50"
proof -
  note full = encoder_total_well_formed [of 3 "[]" "[8364, 30000]"]
  note small = encoder_total_well_formed [of 50 "[]" "[]"]
  have nonneg: "(0::int) \<le> 3" "(0::int) \<le> 50"
    by simp_all
  from full nonneg have len: "int (length (preprocess_text [8364, 30000] 3)) = 3"
    by blast
  then have "1 < length (preprocess_text [8364, 30000] 3)"
    by linarith
  then have "preprocess_text [8364, 30000] 3 ! 1 \<in> set (preprocess_text [8364, 30000] 3)"
    by (rule nth_mem)
  with full small nonneg len show ?thesis
    by blast
qed

section \<open>Example Generator: claims C7, C8 and C10\<close>

lemma generate_loop_eq:
  "generate_loop body n g acc = acc @ synthetic_examples body n g"
  by (induction n arbitrary: g acc) (simp_all add: split_def Let_def)

lemma length_synthetic_examples: "length (synthetic_examples body n g) = n"
  by (induction n arbitrary: g) (simp_all add: split_def Let_def)

lemma synthetic_examples_all:
  "(\<And>g'. P (fst (body g'))) \<Longrightarrow> ex \<in> set (synthetic_examples body n g) \<Longrightarrow> P ex"
  by (induction n arbitrary: g) (auto simp: split_def Let_def)

lemma length_training_examples:
  "length training_examples_full = 10"
  "length training_examples_small = 10"
  "length training_examples_tiny = 5"
  by (simp_all add: training_examples_full_def training_examples_small_def
      training_examples_tiny_def)

lemma length_pools:
  "length names_full = 10" "length surnames_full = 10"
  "length names_small = 10" "length surnames_small = 10"
  "length names_tiny = 5" "length surnames_tiny = 5"
  "length status_options = 4"
  by (simp_all add: names_full_def surnames_full_def names_small_def surnames_small_def
      names_tiny_def surnames_tiny_def status_options_def)

lemma generators_eq:
  "generate_training_data g
     = training_examples_full @ synthetic_examples synthetic_example_full 50 g"
  "generate_simple_training_data g
     = training_examples_small @ synthetic_examples synthetic_example_small 20 g"
  "generate_tiny_training_data g
     = training_examples_tiny @ synthetic_examples synthetic_example_tiny 10 g"
  by (simp_all add: generate_training_data_def generate_simple_training_data_def
      generate_tiny_training_data_def generate_loop_eq)

lemma random_choice_mem: "xs \<noteq> [] \<Longrightarrow> fst (random_choice xs g) \<in> set xs"
  by (simp add: random_choice_def)

lemma pools_nonempty:
  "names_full \<noteq> []" "surnames_full \<noteq> []" "names_small \<noteq> []" "surnames_small \<noteq> []"
  "names_tiny \<noteq> []" "surnames_tiny \<noteq> []" "status_options \<noteq> []"
  using length_pools by auto

lemma label_full:
  "\<exists>first \<in> set names_full. \<exists>last \<in> set surnames_full.
     snd (fst (synthetic_example_full g)) = first @ lit '' '' @ last"
  unfolding synthetic_example_full_def Let_def split_def
  using random_choice_mem [OF pools_nonempty(1)] random_choice_mem [OF pools_nonempty(2)]
  by (intro bexI [where x = "fst (random_choice names_full g)"]
        bexI [where x = "fst (random_choice surnames_full (snd (random_choice names_full g)))"])
     simp_all


lemma label_small:
  "\<exists>first \<in> set names_small. \<exists>last \<in> set surnames_small.
     snd (fst (synthetic_example_small g)) = first @ lit '' '' @ last"
  unfolding synthetic_example_small_def Let_def split_def
  using random_choice_mem [OF pools_nonempty(3)] random_choice_mem [OF pools_nonempty(4)]
  by (intro bexI [where x = "fst (random_choice names_small g)"]
        bexI [where x = "fst (random_choice surnames_small (snd (random_choice names_small g)))"])
     simp_all

lemma label_tiny:
  "\<exists>first \<in> set names_tiny. \<exists>last \<in> set surnames_tiny.
     snd (fst (synthetic_example_tiny g)) = first @ lit '' '' @ last"
  unfolding synthetic_example_tiny_def Let_def split_def
  using random_choice_mem [OF pools_nonempty(5)] random_choice_mem [OF pools_nonempty(6)]
  by (intro bexI [where x = "fst (random_choice names_tiny g)"]
        bexI [where x = "fst (random_choice surnames_tiny (snd (random_choice names_tiny g)))"])
     simp_all

lemma lit_space: "lit '' '' = [32]" and lit_newline: "lit ''\<newline>'' = [10]"
  by (simp_all add: lit_def)

lemma two_tokens:
  assumes "a \<noteq> []" "b \<noteq> []" "32 \<notin> set a" "32 \<notin> set b"
  shows "a @ lit '' '' @ b \<noteq> [] \<and> count_list (a @ lit '' '' @ b) 32 = 1 \<and>
    (\<exists>a' b'. a @ lit '' '' @ b = a' @ lit '' '' @ b' \<and> a' \<noteq> [] \<and> b' \<noteq> [] \<and>
       32 \<notin> set a' \<and> 32 \<notin> set b')"
proof -
  have "count_list a 32 = 0" "count_list b 32 = 0"
    using assms by (simp_all add: count_list_0_iff)
  then have "count_list (a @ lit '' '' @ b) 32 = 1"
    by (simp add: lit_space)
  moreover have "a @ lit '' '' @ b \<noteq> []"
    using assms by simp
  ultimately show ?thesis
    using assms by blast
qed

lemma tiny_pools_tokens:
  "\<forall>n \<in> set names_tiny. n \<noteq> [] \<and> 32 \<notin> set n \<and> 10 \<notin> set n"
  "\<forall>n \<in> set surnames_tiny. n \<noteq> [] \<and> 32 \<notin> set n \<and> 10 \<notin> set n"
  by (simp_all add: names_tiny_def surnames_tiny_def lit_def)

lemma full_pools_tokens:
  "\<forall>n \<in> set names_full. n \<noteq> [] \<and> 32 \<notin> set n \<and> 10 \<notin> set n"
  "\<forall>n \<in> set surnames_full. n \<noteq> [] \<and> 32 \<notin> set n \<and> 10 \<notin> set n"
  by (simp_all add: names_full_def surnames_full_def lit_def)

lemma small_pools_tokens:
  "\<forall>n \<in> set names_small. n \<noteq> [] \<and> 32 \<notin> set n \<and> 10 \<notin> set n"
  "\<forall>n \<in> set surnames_small. n \<noteq> [] \<and> 32 \<notin> set n \<and> 10 \<notin> set n"
  by (simp_all add: names_small_def surnames_small_def lit_def)

lemma tiny_fixed_labels:
  "map snd training_examples_tiny =
     [lit ''John'' @ lit '' '' @ lit ''Smith'', lit ''Maria'' @ lit '' '' @ lit ''Garcia'',
      lit ''Dr.'' @ lit '' '' @ lit ''Johnson'', lit ''Sarah'' @ lit '' '' @ lit ''Wilson'',
      lit ''Mike'' @ lit '' '' @ lit ''Chen'']"
  by (simp add: training_examples_tiny_def lit_def)


lemma first_line:
  assumes "10 \<notin> set label"
  shows "prefix (label @ lit ''\<newline>'') (label @ lit ''\<newline>'' @ rest) \<and>
    takeWhile (\<lambda>c. c \<noteq> 10) (label @ lit ''\<newline>'' @ rest) = label"
proof -
  have "x \<noteq> 10" if "x \<in> set label" for x
    using assms that by blast
  then show ?thesis
    by (simp add: lit_newline takeWhile_append2)
qed

lemma fixed_first_line:
  "\<forall>ex \<in> set training_examples_full.
     prefix (snd ex @ lit ''\<newline>'') (fst ex) \<and> takeWhile (\<lambda>c. c \<noteq> 10) (fst ex) = snd ex"
  "\<forall>ex \<in> set training_examples_small.
     prefix (snd ex @ lit ''\<newline>'') (fst ex) \<and> takeWhile (\<lambda>c. c \<noteq> 10) (fst ex) = snd ex"
  "\<forall>ex \<in> set training_examples_tiny.
     prefix (snd ex @ lit ''\<newline>'') (fst ex) \<and> takeWhile (\<lambda>c. c \<noteq> 10) (fst ex) = snd ex"
  by (simp_all add: training_examples_full_def training_examples_small_def
      training_examples_tiny_def lit_def)

lemma text_of_label:
  "\<exists>rest. fst (fst (synthetic_example_full g))
     = snd (fst (synthetic_example_full g)) @ lit ''\<newline>'' @ rest"
  "\<exists>rest. fst (fst (synthetic_example_small g))
     = snd (fst (synthetic_example_small g)) @ lit ''\<newline>'' @ rest"
  "\<exists>rest. fst (fst (synthetic_example_tiny g))
     = snd (fst (synthetic_example_tiny g)) @ lit ''\<newline>'' @ rest"
  by (simp_all add: synthetic_example_full_def synthetic_example_small_def
      synthetic_example_tiny_def split_def Let_def lit_def)

lemma label_no_newline:
  "10 \<notin> set (snd (fst (synthetic_example_full g)))"
  "10 \<notin> set (snd (fst (synthetic_example_small g)))"
  "10 \<notin> set (snd (fst (synthetic_example_tiny g)))"
  using label_full [of g] label_small [of g] label_tiny [of g]
    full_pools_tokens small_pools_tokens tiny_pools_tokens
  by (auto simp: lit_space)

lemma synthetic_first_line:
  "prefix (snd (fst (synthetic_example_full g)) @ lit ''\<newline>'') (fst (fst (synthetic_example_full g)))
   \<and> takeWhile (\<lambda>c. c \<noteq> 10) (fst (fst (synthetic_example_full g))) = snd (fst (synthetic_example_full g))"
  "prefix (snd (fst (synthetic_example_small g)) @ lit ''\<newline>'') (fst (fst (synthetic_example_small g)))
   \<and> takeWhile (\<lambda>c. c \<noteq> 10) (fst (fst (synthetic_example_small g))) = snd (fst (synthetic_example_small g))"
  "prefix (snd (fst (synthetic_example_tiny g)) @ lit ''\<newline>'') (fst (fst (synthetic_example_tiny g)))
   \<and> takeWhile (\<lambda>c. c \<noteq> 10) (fst (fst (synthetic_example_tiny g))) = snd (fst (synthetic_example_tiny g))"
proof -
  obtain r1 where "fst (fst (synthetic_example_full g))
      = snd (fst (synthetic_example_full g)) @ lit ''\<newline>'' @ r1"
    using text_of_label(1) by blast
  then show "prefix (snd (fst (synthetic_example_full g)) @ lit ''\<newline>'') (fst (fst (synthetic_example_full g)))
   \<and> takeWhile (\<lambda>c. c \<noteq> 10) (fst (fst (synthetic_example_full g))) = snd (fst (synthetic_example_full g))"
    using first_line [OF label_no_newline(1), of g r1] by simp
  obtain r2 where "fst (fst (synthetic_example_small g))
      = snd (fst (synthetic_example_small g)) @ lit ''\<newline>'' @ r2"
    using text_of_label(2) by blast
  then show "prefix (snd (fst (synthetic_example_small g)) @ lit ''\<newline>'') (fst (fst (synthetic_example_small g)))
   \<and> takeWhile (\<lambda>c. c \<noteq> 10) (fst (fst (synthetic_example_small g))) = snd (fst (synthetic_example_small g))"
    using first_line [OF label_no_newline(2), of g r2] by simp
  obtain r3 where "fst (fst (synthetic_example_tiny g))
      = snd (fst (synthetic_example_tiny g)) @ lit ''\<newline>'' @ r3"
    using text_of_label(3) by blast
  then show "prefix (snd (fst (synthetic_example_tiny g)) @ lit ''\<newline>'') (fst (fst (synthetic_example_tiny g)))
   \<and> takeWhile (\<lambda>c. c \<noteq> 10) (fst (fst (synthetic_example_tiny g))) = snd (fst (synthetic_example_tiny g))"
    using first_line [OF label_no_newline(3), of g r3] by simp
qed

lemma decimal_digit: "n < 10 \<Longrightarrow> decimal n = [48 + n]"
  by (subst decimal.simps) simp

lemma decimal_two_digits: "10 \<le> n \<Longrightarrow> n < 100 \<Longrightarrow> decimal n = [48 + n div 10, 48 + n mod 10]"
  by (subst decimal.simps) (simp add: decimal_digit)

lemma synthetic_example_full_zero:
  "fst (synthetic_example_full (\<lambda>i. 0))
     = (lit ''Alex Anderson\<newline>Online\<newline>Last seen today at 1:10 PM'', lit ''Alex Anderson'')"
  by (simp add: synthetic_example_full_def random_choice_def random_randint_def rng_next_def
      names_full_def surnames_full_def status_options_def format_d_def format_02d_def
      decimal_digit decimal_two_digits Let_def lit_def)


text \<open>
  C7. For every random source, each generator returns its fixed hand-authored list (10
  examples for the full and the small variant, 5 for the tiny one) followed, in order, by
  exactly N synthetic examples, N = 50, 20 and 10; so the tiny variant returns at least
  15 examples.
\<close>

theorem generator_output_shape:
  "generate_training_data g
     = training_examples_full @ synthetic_examples synthetic_example_full 50 g \<and>
   length training_examples_full = 10 \<and>
   length (synthetic_examples synthetic_example_full 50 g) = 50 \<and>
   generate_simple_training_data g
     = training_examples_small @ synthetic_examples synthetic_example_small 20 g \<and>
   length training_examples_small = 10 \<and>
   length (synthetic_examples synthetic_example_small 20 g) = 20 \<and>
   generate_tiny_training_data g
     = training_examples_tiny @ synthetic_examples synthetic_example_tiny 10 g \<and>
   length training_examples_tiny = 5 \<and>
   length (synthetic_examples synthetic_example_tiny 10 g) = 10 \<and>
   15 \<le> length (generate_tiny_training_data g)"
  by (simp add: generators_eq length_training_examples length_synthetic_examples)

text \<open>
  C8. For every random source, the label of every synthetic example (the examples after
  the fixed ones) is a first name of the variant's pool, a single space, and a surname of
  the variant's pool; the pools have 10 and 10 entries for the full and the small variant
  and 5 and 5 for the tiny one. Every example of the tiny variant, fixed or synthetic, has
  a non-empty label with exactly one space, which separates two non-empty tokens.
\<close>

theorem synthetic_labels:
  "(\<forall>ex \<in> set (drop 10 (generate_training_data g)).
      \<exists>first \<in> set names_full. \<exists>last \<in> set surnames_full. snd ex = first @ lit '' '' @ last) \<and>
   (\<forall>ex \<in> set (drop 10 (generate_simple_training_data g)).
      \<exists>first \<in> set names_small. \<exists>last \<in> set surnames_small. snd ex = first @ lit '' '' @ last) \<and>
   (\<forall>ex \<in> set (drop 5 (generate_tiny_training_data g)).
      \<exists>first \<in> set names_tiny. \<exists>last \<in> set surnames_tiny. snd ex = first @ lit '' '' @ last) \<and>
   length names_full = 10 \<and> length surnames_full = 10 \<and>
   length names_small = 10 \<and> length surnames_small = 10 \<and>
   length names_tiny = 5 \<and> length surnames_tiny = 5 \<and>
   (\<forall>ex \<in> set (generate_tiny_training_data g).
      snd ex \<noteq> [] \<and> count_list (snd ex) 32 = 1 \<and>
      (\<exists>a b. snd ex = a @ lit '' '' @ b \<and> a \<noteq> [] \<and> b \<noteq> [] \<and> 32 \<notin> set a \<and> 32 \<notin> set b))"
proof -
  let ?two = "\<lambda>label. label \<noteq> [] \<and> count_list label 32 = 1 \<and>
      (\<exists>a b. label = a @ lit '' '' @ b \<and> a \<noteq> [] \<and> b \<noteq> [] \<and> 32 \<notin> set a \<and> 32 \<notin> set b)"
  have full: "\<exists>first \<in> set names_full. \<exists>last \<in> set surnames_full. snd ex = first @ lit '' '' @ last"
    if "ex \<in> set (drop 10 (generate_training_data g))" for ex
    using that label_full
    by (simp add: generators_eq length_training_examples)
       (rule synthetic_examples_all [where body = synthetic_example_full])
  have small: "\<exists>first \<in> set names_small. \<exists>last \<in> set surnames_small. snd ex = first @ lit '' '' @ last"
    if "ex \<in> set (drop 10 (generate_simple_training_data g))" for ex
    using that label_small
    by (simp add: generators_eq length_training_examples)
       (rule synthetic_examples_all [where body = synthetic_example_small])
  have tiny: "\<exists>first \<in> set names_tiny. \<exists>last \<in> set surnames_tiny. snd ex = first @ lit '' '' @ last"
    if "ex \<in> set (synthetic_examples synthetic_example_tiny 10 g)" for ex
    using label_tiny that
    by (rule synthetic_examples_all [where body = synthetic_example_tiny])
  have tiny_syn: "?two (snd ex)" if "ex \<in> set (synthetic_examples synthetic_example_tiny 10 g)" for ex
  proof -
    from tiny [OF that] obtain first last
      where "first \<in> set names_tiny" "last \<in> set surnames_tiny"
        and eq: "snd ex = first @ lit '' '' @ last"
      by blast
    then have "first \<noteq> []" "last \<noteq> []" "32 \<notin> set first" "32 \<notin> set last"
      using tiny_pools_tokens by blast+
    then show ?thesis
      unfolding eq by (rule two_tokens)
  qed
  have tiny_fixed: "?two (snd ex)" if "ex \<in> set training_examples_tiny" for ex
  proof -
    from that have "snd ex \<in> set (map snd training_examples_tiny)"
      by simp
    then consider "snd ex = lit ''John'' @ lit '' '' @ lit ''Smith''"
      | "snd ex = lit ''Maria'' @ lit '' '' @ lit ''Garcia''"
      | "snd ex = lit ''Dr.'' @ lit '' '' @ lit ''Johnson''"
      | "snd ex = lit ''Sarah'' @ lit '' '' @ lit ''Wilson''"
      | "snd ex = lit ''Mike'' @ lit '' '' @ lit ''Chen''"
      unfolding tiny_fixed_labels by auto
    then show ?thesis
    proof cases
      case 1 show ?thesis unfolding 1 by (rule two_tokens) (simp_all add: lit_def)
    next
      case 2 show ?thesis unfolding 2 by (rule two_tokens) (simp_all add: lit_def)
    next
      case 3 show ?thesis unfolding 3 by (rule two_tokens) (simp_all add: lit_def)
    next
      case 4 show ?thesis unfolding 4 by (rule two_tokens) (simp_all add: lit_def)
    next
      case 5 show ?thesis unfolding 5 by (rule two_tokens) (simp_all add: lit_def)
    qed
  qed
  have tiny_all: "?two (snd ex)" if "ex \<in> set (generate_tiny_training_data g)" for ex
  proof -
    from that have "ex \<in> set training_examples_tiny
        \<or> ex \<in> set (synthetic_examples synthetic_example_tiny 10 g)"
      unfolding generators_eq by simp
    then show ?thesis
    proof
      assume "ex \<in> set training_examples_tiny"
      then show ?thesis by (rule tiny_fixed)
    next
      assume "ex \<in> set (synthetic_examples synthetic_example_tiny 10 g)"
      then show ?thesis by (rule tiny_syn)
    qed
  qed
  have tiny_drop: "drop 5 (generate_tiny_training_data g)
      = synthetic_examples synthetic_example_tiny 10 g"
    by (simp add: generators_eq length_training_examples)
  show ?thesis
    using full small tiny tiny_all unfolding tiny_drop
    by (intro conjI ballI length_pools) blast+
qed


lemma synthetic_examples_first:
  "0 < n \<Longrightarrow> synthetic_examples body n g ! 0 = fst (body g)"
  by (cases n) (simp_all add: split_def Let_def)

lemma first_synthetic:
  "generate_training_data g ! 10 = fst (synthetic_example_full g)"
  "generate_simple_training_data g ! 10 = fst (synthetic_example_small g)"
  "generate_tiny_training_data g ! 5 = fst (synthetic_example_tiny g)"
  by (simp_all add: generators_eq nth_append length_training_examples synthetic_examples_first)

lemma length_generators:
  "length (generate_training_data g) = 60"
  "length (generate_simple_training_data g) = 30"
  "length (generate_tiny_training_data g) = 15"
  by (simp_all add: generators_eq length_training_examples length_synthetic_examples)

lemma synthetic_example_tiny_zero:
  "fst (synthetic_example_tiny (\<lambda>i. 0)) = (lit ''Alex Anderson\<newline>Online'', lit ''Alex Anderson'')"
  by (simp add: synthetic_example_tiny_def random_choice_def rng_next_def
      names_tiny_def surnames_tiny_def Let_def lit_def)

theorem synthetic_labels_witness:
  "snd (generate_tiny_training_data (\<lambda>i. 0) ! 5) = lit ''Alex Anderson'' \<and>
   count_list (lit ''Alex Anderson'') 32 = 1 \<and>
   (\<exists>first \<in> set names_tiny. \<exists>last \<in> set surnames_tiny.
      lit ''Alex Anderson'' = first @ lit '' '' @ last)"
proof -
  let ?g = "\<lambda>i::nat. 0::nat"
  have label: "snd (generate_tiny_training_data ?g ! 5) = lit ''Alex Anderson''"
    by (simp add: first_synthetic synthetic_example_tiny_zero)
  have "generate_tiny_training_data ?g ! 5 \<in> set (generate_tiny_training_data ?g)"
    by (rule nth_mem) (simp add: length_generators)
  moreover have "generate_tiny_training_data ?g ! 5 \<in> set (drop 5 (generate_tiny_training_data ?g))"
  proof -
    have "drop 5 (generate_tiny_training_data ?g) ! 0 = generate_tiny_training_data ?g ! 5"
      by (simp add: length_generators)
    moreover have "drop 5 (generate_tiny_training_data ?g) ! 0
        \<in> set (drop 5 (generate_tiny_training_data ?g))"
      by (rule nth_mem) (simp add: length_generators)
    ultimately show ?thesis
      by simp
  qed
  ultimately show ?thesis
    using synthetic_labels [of ?g] unfolding label [symmetric] by blast
qed

text \<open>
  C10. For every random source and every example of any of the three generators, fixed or
  synthetic, the input text begins with the label followed immediately by a newline, and
  the label is the first line of the text (the text up to its first newline).
\<close>

theorem label_is_first_line:
  "(\<forall>ex \<in> set (generate_training_data g).
      prefix (snd ex @ lit ''\<newline>'') (fst ex) \<and> takeWhile (\<lambda>c. c \<noteq> 10) (fst ex) = snd ex) \<and>
   (\<forall>ex \<in> set (generate_simple_training_data g).
      prefix (snd ex @ lit ''\<newline>'') (fst ex) \<and> takeWhile (\<lambda>c. c \<noteq> 10) (fst ex) = snd ex) \<and>
   (\<forall>ex \<in> set (generate_tiny_training_data g).
      prefix (snd ex @ lit ''\<newline>'') (fst ex) \<and> takeWhile (\<lambda>c. c \<noteq> 10) (fst ex) = snd ex)"
proof -
  let ?P = "\<lambda>ex :: example.
      prefix (snd ex @ lit ''\<newline>'') (fst ex) \<and> takeWhile (\<lambda>c. c \<noteq> 10) (fst ex) = snd ex"
  have full: "?P ex" if "ex \<in> set (synthetic_examples synthetic_example_full 50 g)" for ex
    using synthetic_first_line(1) that
    by (rule synthetic_examples_all [where body = synthetic_example_full])
  have small: "?P ex" if "ex \<in> set (synthetic_examples synthetic_example_small 20 g)" for ex
    using synthetic_first_line(2) that
    by (rule synthetic_examples_all [where body = synthetic_example_small])
  have tiny: "?P ex" if "ex \<in> set (synthetic_examples synthetic_example_tiny 10 g)" for ex
    using synthetic_first_line(3) that
    by (rule synthetic_examples_all [where body = synthetic_example_tiny])
  have "?P ex" if "ex \<in> set (generate_training_data g)" for ex
    using that full fixed_first_line(1) unfolding generators_eq set_append Un_iff by blast
  moreover have "?P ex" if "ex \<in> set (generate_simple_training_data g)" for ex
    using that small fixed_first_line(2) unfolding generators_eq set_append Un_iff by blast
  moreover have "?P ex" if "ex \<in> set (generate_tiny_training_data g)" for ex
    using that tiny fixed_first_line(3) unfolding generators_eq set_append Un_iff by blast
  ultimately show ?thesis
    by blast
qed

theorem label_is_first_line_witness:
  "generate_training_data (\<lambda>i. 0) ! 10
     = (lit ''Alex Anderson\<newline>Online\<newline>Last seen today at 1:10 PM'', lit ''Alex Anderson'') \<and>
   prefix (lit ''Alex Anderson'' @ lit ''\<newline>'')
     (lit ''Alex Anderson\<newline>Online\<newline>Last seen today at 1:10 PM'') \<and>
   takeWhile (\<lambda>c. c \<noteq> 10) (lit ''Alex Anderson\<newline>Online\<newline>Last seen today at 1:10 PM'')
     = lit ''Alex Anderson''"
proof -
  let ?g = "\<lambda>i::nat. 0::nat"
  have ex: "generate_training_data ?g ! 10
     = (lit ''Alex Anderson\<newline>Online\<newline>Last seen today at 1:10 PM'', lit ''Alex Anderson'')"
    by (simp add: first_synthetic synthetic_example_full_zero)
  have "generate_training_data ?g ! 10 \<in> set (generate_training_data ?g)"
    by (rule nth_mem) (simp add: length_generators)
  with label_is_first_line [of ?g]
  have "prefix (snd (generate_training_data ?g ! 10) @ lit ''\<newline>'')
          (fst (generate_training_data ?g ! 10)) \<and>
        takeWhile (\<lambda>c. c \<noteq> 10) (fst (generate_training_data ?g ! 10))
          = snd (generate_training_data ?g ! 10)"
    by blast
  then show ?thesis
    unfolding ex by (simp only: fst_conv snd_conv simp_thms)
qed

section \<open>Dataset Builder: claim C9\<close>

lemma dataset_loop_eq:
  "dataset_loop enc_text enc_name exs X y
     = (X @ map (\<lambda>ex. enc_text (fst ex)) exs, y @ map (\<lambda>ex. enc_name (snd ex)) exs)"
proof (induction exs arbitrary: X y)
  case Nil
  show ?case by simp
next
  case (Cons ex exs)
  obtain t n where ex: "ex = (t, n)"
    by (cases ex)
  show ?case
    unfolding ex by (simp add: Cons.IH)
qed

lemma np_array_uniform:
  assumes "xss \<noteq> []" and "\<And>xs. xs \<in> set xss \<Longrightarrow> length xs = n"
  shows "np_array xss = Inr (NDArray [length xss, n] xss)"
proof -
  obtain xs rest where xss: "xss = xs # rest"
    using assms(1) by (cases xss) auto
  have "list_all (\<lambda>ys. length ys = length xs) xss"
    using assms(2) by (simp add: xss list_all_iff)
  moreover have "length xs = n"
    using assms(2) by (simp add: xss)
  ultimately show ?thesis
    by (simp add: np_array_def xss)
qed

lemma to_arrays_encoded:
  assumes "exs \<noteq> []"
    and "\<And>t. length (enc_text t) = 200" and "\<And>t. length (enc_name t) = 50"
  shows "to_arrays (dataset_loop enc_text enc_name exs [] [])
     = Inr (NDArray [length exs, 200] (map (\<lambda>ex. enc_text (fst ex)) exs),
            NDArray [length exs, 50] (map (\<lambda>ex. enc_name (snd ex)) exs))"
proof -
  have X: "np_array (map (\<lambda>ex. enc_text (fst ex)) exs)
      = Inr (NDArray [length exs, 200] (map (\<lambda>ex. enc_text (fst ex)) exs))"
    using np_array_uniform [of "map (\<lambda>ex. enc_text (fst ex)) exs" 200] assms by auto
  have y: "np_array (map (\<lambda>ex. enc_name (snd ex)) exs)
      = Inr (NDArray [length exs, 50] (map (\<lambda>ex. enc_name (snd ex)) exs))"
    using np_array_uniform [of "map (\<lambda>ex. enc_name (snd ex)) exs" 50] assms by auto
  show ?thesis
    by (simp add: to_arrays_def dataset_loop_eq X y)
qed

lemma default_lengths:
  "length (preprocess_text t 200) = 200" "length (preprocess_contact_name t 50) = 50"
  "length (preprocess_text_simple t 200) = 200" "length (preprocess_contact_name_simple t 50) = 50"
  "length (preprocess_text_tiny t 200) = 200" "length (preprocess_contact_name_tiny t 50) = 50"
  by (simp_all add: encoders_are_encode length_encode)


lemma generators_nonempty:
  "generate_training_data g \<noteq> []" "generate_simple_training_data g \<noteq> []"
  "generate_tiny_training_data g \<noteq> []"
  using length_generators [of g] by auto

lemma create_training_data_eq:
  "create_training_data_full g =
     Inr (NDArray [length (generate_training_data g), 200]
            (map (\<lambda>ex. preprocess_text (fst ex) 200) (generate_training_data g)),
          NDArray [length (generate_training_data g), 50]
            (map (\<lambda>ex. preprocess_contact_name (snd ex) 50) (generate_training_data g)))"
  "create_training_data_small g =
     Inr (NDArray [length (generate_simple_training_data g), 200]
            (map (\<lambda>ex. preprocess_text_simple (fst ex) 200) (generate_simple_training_data g)),
          NDArray [length (generate_simple_training_data g), 50]
            (map (\<lambda>ex. preprocess_contact_name_simple (snd ex) 50)
               (generate_simple_training_data g)))"
  "create_training_data_tiny g =
     Inr (NDArray [length (generate_tiny_training_data g), 200]
            (map (\<lambda>ex. preprocess_text_tiny (fst ex) 200) (generate_tiny_training_data g)),
          NDArray [length (generate_tiny_training_data g), 50]
            (map (\<lambda>ex. preprocess_contact_name_tiny (snd ex) 50)
               (generate_tiny_training_data g)))"
  unfolding create_training_data_full_def create_training_data_small_def
    create_training_data_tiny_def Let_def
  by (rule to_arrays_encoded; simp add: generators_nonempty default_lengths)+

text \<open>
  C9. For every random source, the Dataset Builder returns two arrays \<open>X\<close> and \<open>y\<close> (it
  does not raise): their first dimension is the number of examples the generator produced,
  the second dimension is 200 for \<open>X\<close> and 50 for \<open>y\<close>, and for every index \<open>i\<close> row \<open>i\<close> of
  \<open>X\<close> is the encoding of the input text of example \<open>i\<close> and row \<open>i\<close> of \<open>y\<close> the encoding of
  its label: nothing is filtered, reordered or deduplicated. This holds for the three
  variants, each with its own generator and encoders.
\<close>

theorem dataset_builder_index_aligned:
  "(\<exists>X y. create_training_data_full g = Inr (X, y) \<and>
      shape X = [length (generate_training_data g), 200] \<and>
      shape y = [length (generate_training_data g), 50] \<and>
      length (rows X) = length (generate_training_data g) \<and>
      length (rows y) = length (generate_training_data g) \<and>
      (\<forall>i < length (generate_training_data g).
         rows X ! i = preprocess_text (fst (generate_training_data g ! i)) 200 \<and>
         rows y ! i = preprocess_contact_name (snd (generate_training_data g ! i)) 50 \<and>
         length (rows X ! i) = 200 \<and> length (rows y ! i) = 50)) \<and>
   (\<exists>X y. create_training_data_small g = Inr (X, y) \<and>
      shape X = [length (generate_simple_training_data g), 200] \<and>
      shape y = [length (generate_simple_training_data g), 50] \<and>
      length (rows X) = length (generate_simple_training_data g) \<and>
      length (rows y) = length (generate_simple_training_data g) \<and>
      (\<forall>i < length (generate_simple_training_data g).
         rows X ! i = preprocess_text_simple (fst (generate_simple_training_data g ! i)) 200 \<and>
         rows y ! i = preprocess_contact_name_simple (snd (generate_simple_training_data g ! i)) 50 \<and>
         length (rows X ! i) = 200 \<and> length (rows y ! i) = 50)) \<and>
   (\<exists>X y. create_training_data_tiny g = Inr (X, y) \<and>
      shape X = [length (generate_tiny_training_data g), 200] \<and>
      shape y = [length (generate_tiny_training_data g), 50] \<and>
      length (rows X) = length (generate_tiny_training_data g) \<and>
      length (rows y) = length (generate_tiny_training_data g) \<and>
      (\<forall>i < length (generate_tiny_training_data g).
         rows X ! i = preprocess_text_tiny (fst (generate_tiny_training_data g ! i)) 200 \<and>
         rows y ! i = preprocess_contact_name_tiny (snd (generate_tiny_training_data g ! i)) 50 \<and>
         length (rows X ! i) = 200 \<and> length (rows y ! i) = 50))"
  by (simp add: create_training_data_eq default_lengths)

theorem dataset_builder_index_aligned_witness:
  "\<exists>X y. create_training_data_tiny (\<lambda>i. 0) = Inr (X, y) \<and>
     shape X = [15, 200] \<and> shape y = [15, 50] \<and>
     rows X ! 5 = preprocess_text_tiny (lit ''Alex Anderson\<newline>Online'') 200 \<and>
     rows y ! 5 = preprocess_contact_name_tiny (lit ''Alex Anderson'') 50"
proof -
  let ?g = "\<lambda>i::nat. 0::nat"
  have ex: "generate_tiny_training_data ?g ! 5
      = (lit ''Alex Anderson\<newline>Online'', lit ''Alex Anderson'')"
    by (simp add: first_synthetic synthetic_example_tiny_zero)
  have len: "length (generate_tiny_training_data ?g) = 15"
    by (rule length_generators)
  from dataset_builder_index_aligned [of ?g]
  obtain X y where r: "create_training_data_tiny ?g = Inr (X, y)"
    and sh: "shape X = [length (generate_tiny_training_data ?g), 200]"
      "shape y = [length (generate_tiny_training_data ?g), 50]"
    and row: "\<forall>i < length (generate_tiny_training_data ?g).
         rows X ! i = preprocess_text_tiny (fst (generate_tiny_training_data ?g ! i)) 200 \<and>
         rows y ! i = preprocess_contact_name_tiny (snd (generate_tiny_training_data ?g ! i)) 50 \<and>
         length (rows X ! i) = 200 \<and> length (rows y ! i) = 50"
    by blast
  from row have "rows X ! 5 = preprocess_text_tiny (fst (generate_tiny_training_data ?g ! 5)) 200"
    and "rows y ! 5 = preprocess_contact_name_tiny (snd (generate_tiny_training_data ?g ! 5)) 50"
    by (simp_all add: len)
  with r sh show ?thesis
    by (simp add: ex len)
qed

section \<open>Model Definition: claim C6\<close>

lemma sum_list_pos_real:
  fixes v :: "real list"
  assumes "\<And>x. x \<in> set v \<Longrightarrow> 0 < x" and "v \<noteq> []"
  shows "0 < sum_list v"
  using assms by (induction v) (auto intro: add_pos_nonneg sum_list_nonneg less_imp_le)

lemma sum_list_nonneg_real:
  fixes v :: "real list"
  assumes "\<And>x. x \<in> set v \<Longrightarrow> 0 < x"
  shows "0 \<le> sum_list v"
  using assms by (intro sum_list_nonneg) (auto intro: less_imp_le)

lemma length_softmax: "length (softmax z) = length z"
  by (simp add: softmax_def)

lemma exp_sum_pos: "z \<noteq> [] \<Longrightarrow> 0 < sum_list (map exp (z :: real list))"
  by (rule sum_list_pos_real) auto

lemma softmax_pos: "x \<in> set (softmax z) \<Longrightarrow> 0 < x"
proof -
  assume x: "x \<in> set (softmax z)"
  then have "z \<noteq> []"
    by (auto simp: softmax_def)
  with x exp_sum_pos [of z] show ?thesis
    by (auto simp: softmax_def)
qed

lemma sum_list_softmax: "z \<noteq> [] \<Longrightarrow> sum_list (softmax z) = 1"
proof -
  assume "z \<noteq> []"
  then have pos: "0 < sum_list (map exp z)"
    by (rule exp_sum_pos)
  have "sum_list (softmax z) = sum_list (map exp z) * inverse (sum_list (map exp z))"
    by (simp add: softmax_def divide_inverse sum_list_mult_const [symmetric] comp_def)
  with pos show ?thesis
    by simp
qed

text \<open>A window of a list of positive numbers that leaves something out sums to less.\<close>

lemma window_sum_less:
  fixes v :: "real list"
  assumes pos: "\<And>x. x \<in> set v \<Longrightarrow> 0 < x" and c: "c < length v"
  shows "sum_list (take c (drop k v)) < sum_list v"
proof -
  define A where "A = take k v"
  define B where "B = take c (drop k v)"
  define C where "C = drop c (drop k v)"
  have "B @ C = drop k v"
    unfolding B_def C_def by (rule append_take_drop_id)
  then have v: "v = A @ B @ C"
    unfolding A_def by simp
  have posA: "0 < x" if "x \<in> set A" for x
    using pos that by (simp add: v)
  have posC: "0 < x" if "x \<in> set C" for x
    using pos that by (simp add: v)
  have lenB: "length B \<le> c"
    by (simp add: B_def)
  have "length v = length A + length B + length C"
    by (subst v) simp
  with c lenB have "0 < length A + length C"
    by linarith
  then have "A \<noteq> [] \<or> C \<noteq> []"
    by auto
  then have "0 < sum_list A + sum_list C"
  proof
    assume "A \<noteq> []"
    with posA have "0 < sum_list A" by (intro sum_list_pos_real)
    moreover from posC have "0 \<le> sum_list C" by (intro sum_list_nonneg_real)
    ultimately show ?thesis by linarith
  next
    assume "C \<noteq> []"
    with posC have "0 < sum_list C" by (intro sum_list_pos_real)
    moreover from posA have "0 \<le> sum_list A" by (intro sum_list_nonneg_real)
    ultimately show ?thesis by linarith
  qed
  moreover have "sum_list v = sum_list A + sum_list B + sum_list C"
    by (subst v) simp
  ultimately show ?thesis
    unfolding B_def by linarith
qed

lemma length_reshape: "length (reshape nrows ncols v) = nrows"
  by (simp add: reshape_def)

lemma reshape_row:
  "row \<in> set (reshape nrows ncols v) \<Longrightarrow> \<exists>r < nrows. row = take ncols (drop (r * ncols) v)"
  by (auto simp: reshape_def)

lemma reshape_Suc:
  "reshape (Suc m) ncols v = take ncols v # reshape m ncols (drop ncols v)"
proof -
  have "[0..<Suc m] = 0 # map Suc [0..<m]"
    by (simp add: upt_conv_Cons map_Suc_upt del: upt_Suc)
  then show ?thesis
    by (simp add: reshape_def comp_def add.commute del: upt_Suc)
qed

lemma concat_reshape:
  "length v = nrows * ncols \<Longrightarrow> concat (reshape nrows ncols v) = v"
proof (induction nrows arbitrary: v)
  case 0
  then show ?case by (simp add: reshape_def)
next
  case (Suc m)
  from Suc.prems have "length (drop ncols v) = m * ncols"
    by simp
  then have "concat (reshape m ncols (drop ncols v)) = drop ncols v"
    by (rule Suc.IH)
  then show ?case
    by (simp add: reshape_Suc)
qed


lemma dense_softmax_is_softmax:
  "\<exists>z. length z = units \<and> dense units softmax p x = softmax z"
  by (auto simp: dense_def intro!: exI [where x = "map (\<lambda>j. sum_list (map (\<lambda>i. x ! i * kernel p i j) [0..<length x]) + bias p j) [0..<units]"])

text \<open>
  The grid made from a softmax over all \<open>nrows * ncols\<close> units: every entry is positive,
  the whole grid sums to 1, and with more than one non-empty row each row sums to less
  than 1.
\<close>

lemma softmax_then_reshape:
  assumes len: "length z = nrows * ncols" and rows: "1 < nrows" and cols: "0 < ncols"
  shows "length (reshape nrows ncols (softmax z)) = nrows"
    and "sum_list (concat (reshape nrows ncols (softmax z))) = 1"
    and "\<forall>row \<in> set (reshape nrows ncols (softmax z)). (\<forall>p \<in> set row. 0 < p) \<and> sum_list row < 1"
proof -
  have nonempty: "z \<noteq> []"
    using len rows cols by auto
  show "length (reshape nrows ncols (softmax z)) = nrows"
    by (rule length_reshape)
  show "sum_list (concat (reshape nrows ncols (softmax z))) = 1"
    using len nonempty by (simp add: concat_reshape length_softmax sum_list_softmax)
  have "ncols * 1 < ncols * nrows"
    using rows cols by (intro mult_strict_left_mono) auto
  then have short: "ncols < length (softmax z)"
    by (simp add: length_softmax len mult.commute)
  show "\<forall>row \<in> set (reshape nrows ncols (softmax z)). (\<forall>p \<in> set row. 0 < p) \<and> sum_list row < 1"
  proof
    fix row
    assume "row \<in> set (reshape nrows ncols (softmax z))"
    then obtain r where row: "row = take ncols (drop (r * ncols) (softmax z))"
      using reshape_row by blast
    have "sum_list row < sum_list (softmax z)"
      unfolding row using softmax_pos short by (rule window_sum_less)
    moreover have "\<forall>p \<in> set row. 0 < p"
      unfolding row using softmax_pos by (blast dest: in_set_takeD in_set_dropD)
    ultimately show "(\<forall>p \<in> set row. 0 < p) \<and> sum_list row < 1"
      using nonempty by (simp add: sum_list_softmax)
  qed
qed


lemma reshape_row_length:
  assumes "length v = nrows * ncols" and "row \<in> set (reshape nrows ncols v)"
  shows "length row = ncols"
proof -
  from assms(2) obtain r where r: "r < nrows" and row: "row = take ncols (drop (r * ncols) v)"
    using reshape_row by blast
  from r have "Suc r * ncols \<le> nrows * ncols"
    by (intro mult_le_mono1) simp
  then have "ncols \<le> nrows * ncols - r * ncols"
    by simp
  then show ?thesis
    by (simp add: row assms(1))
qed

lemma model_is_softmax_grid:
  "\<exists>z. length z = 50 * 30000 \<and>
     create_contact_detection_model dropout w1 x = reshape 50 30000 (softmax z)"
  "\<exists>z. length z = 50 * 256 \<and>
     create_small_contact_detection_model dropout w2 x = reshape 50 256 (softmax z)"
  "\<exists>z. length z = 50 * 128 \<and>
     create_tiny_contact_detection_model w3 x = reshape 50 128 (softmax z)"
  unfolding create_contact_detection_model_def create_small_contact_detection_model_def
    create_tiny_contact_detection_model_def Let_def MAX_OUTPUT_LENGTH_def
    VOCAB_SIZE_full_def VOCAB_SIZE_small_def VOCAB_SIZE_tiny_def
  using dense_softmax_is_softmax by metis+

lemma softmax_grid_facts:
  assumes "length z = 50 * ncols" and "0 < ncols"
  shows "length (reshape 50 ncols (softmax z)) = 50 \<and>
    (\<forall>row \<in> set (reshape 50 ncols (softmax z)). length row = ncols) \<and>
    (\<forall>row \<in> set (reshape 50 ncols (softmax z)). \<forall>p \<in> set row. 0 < p) \<and>
    sum_list (concat (reshape 50 ncols (softmax z))) = 1 \<and>
    (\<forall>row \<in> set (reshape 50 ncols (softmax z)). sum_list row < 1)"
proof -
  have "length (softmax z) = 50 * ncols"
    by (simp add: length_softmax assms)
  then have "\<forall>row \<in> set (reshape 50 ncols (softmax z)). length row = ncols"
    using reshape_row_length by blast
  moreover note softmax_then_reshape [OF assms(1) _ assms(2)]
  ultimately show ?thesis
    by simp
qed


text \<open>
  C6. The final fully-connected stage produces \<open>50 * vocab_size\<close> outputs, reshaped into a
  \<open>(50, vocab_size)\<close> grid of positive numbers. The claim that every row of the grid is a
  probability distribution fails on the code: the softmax is the activation of the output
  layer, so it normalises over all \<open>50 * vocab_size\<close> units before the reshape. For every
  input, every weight state and every behaviour of the dropout layers, the whole grid
  sums to 1 and each of its 50 rows sums to strictly less than 1.
\<close>

theorem output_rows_sum_below_one:
  "(length (create_contact_detection_model dropout w_full x) = 50 \<and>
    (\<forall>row \<in> set (create_contact_detection_model dropout w_full x). length row = 30000) \<and>
    (\<forall>row \<in> set (create_contact_detection_model dropout w_full x). \<forall>p \<in> set row. 0 < p) \<and>
    sum_list (concat (create_contact_detection_model dropout w_full x)) = 1 \<and>
    (\<forall>row \<in> set (create_contact_detection_model dropout w_full x). sum_list row < 1)) \<and>
   (length (create_small_contact_detection_model dropout w_small x) = 50 \<and>
    (\<forall>row \<in> set (create_small_contact_detection_model dropout w_small x). length row = 256) \<and>
    (\<forall>row \<in> set (create_small_contact_detection_model dropout w_small x). \<forall>p \<in> set row. 0 < p) \<and>
    sum_list (concat (create_small_contact_detection_model dropout w_small x)) = 1 \<and>
    (\<forall>row \<in> set (create_small_contact_detection_model dropout w_small x). sum_list row < 1)) \<and>
   (length (create_tiny_contact_detection_model w_tiny x) = 50 \<and>
    (\<forall>row \<in> set (create_tiny_contact_detection_model w_tiny x). length row = 128) \<and>
    (\<forall>row \<in> set (create_tiny_contact_detection_model w_tiny x). \<forall>p \<in> set row. 0 < p) \<and>
    sum_list (concat (create_tiny_contact_detection_model w_tiny x)) = 1 \<and>
    (\<forall>row \<in> set (create_tiny_contact_detection_model w_tiny x). sum_list row < 1))"
proof (intro conjI)
  obtain z1 where "length z1 = 50 * 30000"
    and m1: "create_contact_detection_model dropout w_full x = reshape 50 30000 (softmax z1)"
    using model_is_softmax_grid(1) by blast
  then have f1: "length (reshape 50 30000 (softmax z1)) = 50 \<and>
    (\<forall>row \<in> set (reshape 50 30000 (softmax z1)). length row = 30000) \<and>
    (\<forall>row \<in> set (reshape 50 30000 (softmax z1)). \<forall>p \<in> set row. 0 < p) \<and>
    sum_list (concat (reshape 50 30000 (softmax z1))) = 1 \<and>
    (\<forall>row \<in> set (reshape 50 30000 (softmax z1)). sum_list row < 1)"
    by (intro softmax_grid_facts) simp_all
  obtain z2 where "length z2 = 50 * 256"
    and m2: "create_small_contact_detection_model dropout w_small x = reshape 50 256 (softmax z2)"
    using model_is_softmax_grid(2) by blast
  then have f2: "length (reshape 50 256 (softmax z2)) = 50 \<and>
    (\<forall>row \<in> set (reshape 50 256 (softmax z2)). length row = 256) \<and>
    (\<forall>row \<in> set (reshape 50 256 (softmax z2)). \<forall>p \<in> set row. 0 < p) \<and>
    sum_list (concat (reshape 50 256 (softmax z2))) = 1 \<and>
    (\<forall>row \<in> set (reshape 50 256 (softmax z2)). sum_list row < 1)"
    by (intro softmax_grid_facts) simp_all
  obtain z3 where "length z3 = 50 * 128"
    and m3: "create_tiny_contact_detection_model w_tiny x = reshape 50 128 (softmax z3)"
    using model_is_softmax_grid(3) by blast
  then have f3: "length (reshape 50 128 (softmax z3)) = 50 \<and>
    (\<forall>row \<in> set (reshape 50 128 (softmax z3)). length row = 128) \<and>
    (\<forall>row \<in> set (reshape 50 128 (softmax z3)). \<forall>p \<in> set row. 0 < p) \<and>
    sum_list (concat (reshape 50 128 (softmax z3))) = 1 \<and>
    (\<forall>row \<in> set (reshape 50 128 (softmax z3)). sum_list row < 1)"
    by (intro softmax_grid_facts) simp_all
  show "length (create_contact_detection_model dropout w_full x) = 50"
    "\<forall>row \<in> set (create_contact_detection_model dropout w_full x). length row = 30000"
    "\<forall>row \<in> set (create_contact_detection_model dropout w_full x). \<forall>p \<in> set row. 0 < p"
    "sum_list (concat (create_contact_detection_model dropout w_full x)) = 1"
    "\<forall>row \<in> set (create_contact_detection_model dropout w_full x). sum_list row < 1"
    unfolding m1 using f1 by blast+
  show "length (create_small_contact_detection_model dropout w_small x) = 50"
    "\<forall>row \<in> set (create_small_contact_detection_model dropout w_small x). length row = 256"
    "\<forall>row \<in> set (create_small_contact_detection_model dropout w_small x). \<forall>p \<in> set row. 0 < p"
    "sum_list (concat (create_small_contact_detection_model dropout w_small x)) = 1"
    "\<forall>row \<in> set (create_small_contact_detection_model dropout w_small x). sum_list row < 1"
    unfolding m2 using f2 by blast+
  show "length (create_tiny_contact_detection_model w_tiny x) = 50"
    "\<forall>row \<in> set (create_tiny_contact_detection_model w_tiny x). length row = 128"
    "\<forall>row \<in> set (create_tiny_contact_detection_model w_tiny x). \<forall>p \<in> set row. 0 < p"
    "sum_list (concat (create_tiny_contact_detection_model w_tiny x)) = 1"
    "\<forall>row \<in> set (create_tiny_contact_detection_model w_tiny x). sum_list row < 1"
    unfolding m3 using f3 by blast+
qed


lemma empty_text_input: "map real_of_int (preprocess_text_tiny [] 200) = replicate 200 0"
  by (simp add: encoders_are_encode encode_empty)

lemma dense_zero_input:
  "dense units act \<lparr>kernel = k, bias = \<lambda>j. 0\<rparr> (replicate n 0) = act (replicate units 0)"
proof -
  have "sum_list (map (\<lambda>i. replicate n (0::real) ! i * k i j) [0..<n]) = 0" for j
  proof -
    have "map (\<lambda>i. replicate n (0::real) ! i * k i j) [0..<n] = map (\<lambda>i. 0) [0..<n]"
      by (rule map_cong) simp_all
    then have "sum_list (map (\<lambda>i. replicate n (0::real) ! i * k i j) [0..<n])
        = sum_list (map (\<lambda>i. 0::real) [0..<n])"
      by (rule arg_cong)
    also have "\<dots> = 0"
      by simp
    finally show ?thesis .
  qed
  then show ?thesis
    by (simp add: dense_def map_replicate_const)
qed

lemma relu_zero: "relu (replicate n 0) = replicate n 0"
  by (simp add: relu_def)

lemma softmax_zero: "softmax (replicate n 0) = replicate n (1 / real n)"
  by (simp add: softmax_def sum_list_replicate)

lemma reshape_uniform:
  assumes "row \<in> set (reshape nrows ncols (replicate (nrows * ncols) c))"
  shows "row = replicate ncols c"
proof -
  from assms obtain r where r: "r < nrows"
    and row: "row = take ncols (drop (r * ncols) (replicate (nrows * ncols) c))"
    using reshape_row by blast
  from r have "Suc r * ncols \<le> nrows * ncols"
    by (intro mult_le_mono1) simp
  then have "min ncols (nrows * ncols - r * ncols) = ncols"
    by simp
  then show ?thesis
    by (simp add: row)
qed

text \<open>
  A freshly built tiny model on the encoding of the empty text: every hidden unit and every
  logit is 0, every output is \<open>1 / 6400\<close>, and each of the 50 rows sums to \<open>1 / 50\<close>.
\<close>

lemma initial_model_rows:
  assumes "row \<in> set (create_tiny_contact_detection_model (initial_weights_tiny k1 k2 k3)
      (map real_of_int (preprocess_text_tiny [] 200)))"
  shows "row = replicate 128 (1 / 6400)" and "sum_list row = 1 / 50"
proof -
  have "create_tiny_contact_detection_model (initial_weights_tiny k1 k2 k3)
      (map real_of_int (preprocess_text_tiny [] 200))
    = reshape 50 128 (replicate (50 * 128) (1 / 6400))"
    by (simp add: create_tiny_contact_detection_model_def initial_weights_tiny_def Let_def
        empty_text_input dense_zero_input relu_zero softmax_zero
        MAX_OUTPUT_LENGTH_def VOCAB_SIZE_tiny_def)
  with assms show "row = replicate 128 (1 / 6400)"
    using reshape_uniform [of row 50 128 "1 / 6400"] by simp
  then show "sum_list row = 1 / 50"
    by (simp add: sum_list_replicate)
qed

theorem output_rows_sum_below_one_witness:
  "\<forall>k1 k2 k3.
     sum_list (create_tiny_contact_detection_model (initial_weights_tiny k1 k2 k3)
       (map real_of_int (preprocess_text_tiny [] 200)) ! 0) = 1 / 50 \<and>
     sum_list (create_tiny_contact_detection_model (initial_weights_tiny k1 k2 k3)
       (map real_of_int (preprocess_text_tiny [] 200)) ! 0) < 1"
proof (intro allI)
  fix k1 k2 k3
  let ?grid = "create_tiny_contact_detection_model (initial_weights_tiny k1 k2 k3)
       (map real_of_int (preprocess_text_tiny [] 200))"
  note facts = output_rows_sum_below_one [where w_tiny = "initial_weights_tiny k1 k2 k3"
      and x = "map real_of_int (preprocess_text_tiny [] 200)"]
  from facts have "length ?grid = 50"
    by blast
  then have row: "?grid ! 0 \<in> set ?grid"
    by (intro nth_mem) simp
  with facts have "sum_list (?grid ! 0) < 1"
    by blast
  moreover from row have "sum_list (?grid ! 0) = 1 / 50"
    by (rule initial_model_rows)
  ultimately show "sum_list (?grid ! 0) = 1 / 50 \<and> sum_list (?grid ! 0) < 1"
    by blast
qed

end
